theory Spec2Isabelle
  imports Main "HOL-Library.Word"
begin

section \<open>Python values used by the command line executor\<close>

text \<open>
  A Python \<open>str\<close> is a sequence of Unicode code points, a \<open>bytes\<close> object a sequence of
  octets. String literals of the source are written with \<open>py\<close>.
\<close>

type_synonym pystr = "nat list"
type_synonym pybytes = "8 word list"

definition py :: "string \<Rightarrow> pystr" where
  "py s = map of_char s"

text \<open>
  The values that reach the handlers come from a decoded JSON payload (\<open>arguments: Any\<close>).
  A Python \<open>None\<close> is \<open>JNull\<close>; a dict is an association list read with \<open>map_of\<close>.
  Floating point numbers are left out.
\<close>

datatype json =
    JNull
  | JBool bool
  | JInt int
  | JStr pystr
  | JList "json list"
  | JDict "(pystr \<times> json) list"

text \<open>Truth value testing, as \<open>if args:\<close> does it.\<close>

fun truthy :: "json \<Rightarrow> bool" where
  "truthy JNull = False"
| "truthy (JBool b) = b"
| "truthy (JInt n) = (n \<noteq> 0)"
| "truthy (JStr s) = (s \<noteq> [])"
| "truthy (JList xs) = (xs \<noteq> [])"
| "truthy (JDict kvs) = (kvs \<noteq> [])"

text \<open>\<open>isinstance(arguments, dict)\<close> and \<open>key in arguments\<close>.\<close>

fun is_dict :: "json \<Rightarrow> bool" where
  "is_dict (JDict kvs) = True"
| "is_dict v = False"

fun contains_key :: "pystr \<Rightarrow> json \<Rightarrow> bool" where
  "contains_key k (JDict kvs) = (map_of kvs k \<noteq> None)"
| "contains_key k v = False"

fun get_key :: "pystr \<Rightarrow> json \<Rightarrow> json option" where
  "get_key k (JDict kvs) = map_of kvs k"
| "get_key k v = None"

subsection \<open>Exceptions\<close>

text \<open>
  The classes that matter to the two \<open>except\<close> clauses of \<open>run_cmd_line\<close>:
  \<open>subprocess.SubprocessError\<close> (with its subclasses), the other subclasses of
  \<open>Exception\<close>, and \<open>CancelledError\<close>, which stands for the classes that derive from
  \<open>BaseException\<close> only (\<open>asyncio.CancelledError\<close>, \<open>KeyboardInterrupt\<close>, \<open>SystemExit\<close>)
  and that \<open>except Exception\<close> lets through. An exception carries the text that \<open>str(e)\<close>
  returns.
\<close>

datatype exn_class =
    SubprocessError
  | OSError
  | UnicodeDecodeError
  | ValueError
  | KeyError
  | TypeError
  | RuntimeError
  | CancelledError

datatype exn = Exn (class_of: exn_class) (str_exn: pystr)

definition isinstance_SubprocessError :: "exn \<Rightarrow> bool" where
  "isinstance_SubprocessError e = (class_of e = SubprocessError)"

definition isinstance_Exception :: "exn \<Rightarrow> bool" where
  "isinstance_Exception e = (class_of e \<noteq> CancelledError)"

subsection \<open>\<open>bytes.decode()\<close>: strict UTF-8\<close>

text \<open>Decimal and two-digit hexadecimal numerals of the error text.\<close>

definition digit_char :: "nat \<Rightarrow> nat" where
  "digit_char d = (if d < 10 then 48 + d else 87 + d)"

function decimal :: "nat \<Rightarrow> pystr" where
  "decimal n = (if n < 10 then [digit_char n] else decimal (n div 10) @ [digit_char (n mod 10)])"
  by pat_completeness auto
termination
  by (relation "measure id") auto

declare decimal.simps [simp del]

definition hex2 :: "nat \<Rightarrow> pystr" where
  "hex2 b = [digit_char (b div 16), digit_char (b mod 16)]"

text \<open>
  \<open>str(e)\<close> of a \<open>UnicodeDecodeError\<close> over the octets \<open>start..<end\<close>, the first of
  them being \<open>b\<close>.
\<close>

definition decode_error :: "nat \<Rightarrow> nat \<Rightarrow> nat \<Rightarrow> string \<Rightarrow> exn" where
  "decode_error b start end reason = Exn UnicodeDecodeError
     (if end = start + 1
      then py [CHR 0x27] @ py ''utf-8'' @ py [CHR 0x27] @ py '' codec can''
           @ py [CHR 0x27] @ py ''t decode byte 0x'' @ hex2 b @ py '' in position ''
           @ decimal start @ py '': '' @ py reason
      else py [CHR 0x27] @ py ''utf-8'' @ py [CHR 0x27] @ py '' codec can''
           @ py [CHR 0x27] @ py ''t decode bytes in position '' @ decimal start @ py ''-''
           @ decimal (end - 1) @ py '': '' @ py reason)"

definition is_continuation :: "nat \<Rightarrow> bool" where
  "is_continuation c = (128 \<le> c \<and> c < 192)"

definition emit :: "nat \<Rightarrow> exn + pystr \<Rightarrow> exn + pystr" where
  "emit cp rest = (case rest of Inl e \<Rightarrow> Inl e | Inr s \<Rightarrow> Inr (cp # s))"

text \<open>
  The decoder reads the octets (as numbers below 256) from position \<open>i\<close> on. It accepts
  the well-formed sequences only: no overlong forms, no surrogates, nothing above
  U+10FFFF. The first ill-formed sequence raises.
\<close>

fun utf8_from :: "nat \<Rightarrow> nat list \<Rightarrow> exn + pystr" where
  "utf8_from i [] = Inr []"
| "utf8_from i (b # bs) =
    (if b < 128 then emit b (utf8_from (i + 1) bs)
     else if b < 224 then
       (if b < 194 then Inl (decode_error b i (i + 1) ''invalid start byte'')
        else case bs of
            [] \<Rightarrow> Inl (decode_error b i (i + 1) ''unexpected end of data'')
          | c2 # r2 \<Rightarrow>
              if \<not> is_continuation c2
              then Inl (decode_error b i (i + 1) ''invalid continuation byte'')
              else emit (b * 64 + c2 - (192 * 64 + 128)) (utf8_from (i + 2) r2))
     else if b < 240 then
       (case bs of
            [] \<Rightarrow> Inl (decode_error b i (i + 1) ''unexpected end of data'')
          | c2 # r2 \<Rightarrow>
              if \<not> is_continuation c2 \<or> (if c2 < 160 then b = 224 else b = 237)
              then Inl (decode_error b i (i + 1) ''invalid continuation byte'')
              else (case r2 of
                  [] \<Rightarrow> Inl (decode_error b i (i + 2) ''unexpected end of data'')
                | c3 # r3 \<Rightarrow>
                    if \<not> is_continuation c3
                    then Inl (decode_error b i (i + 2) ''invalid continuation byte'')
                    else emit (b * 4096 + c2 * 64 + c3 - (224 * 4096 + 128 * 64 + 128))
                           (utf8_from (i + 3) r3)))
     else if b < 245 then
       (case bs of
            [] \<Rightarrow> Inl (decode_error b i (i + 1) ''unexpected end of data'')
          | c2 # r2 \<Rightarrow>
              if \<not> is_continuation c2 \<or> (if c2 < 144 then b = 240 else b = 244)
              then Inl (decode_error b i (i + 1) ''invalid continuation byte'')
              else (case r2 of
                  [] \<Rightarrow> Inl (decode_error b i (i + 2) ''unexpected end of data'')
                | c3 # r3 \<Rightarrow>
                    if \<not> is_continuation c3
                    then Inl (decode_error b i (i + 2) ''invalid continuation byte'')
                    else (case r3 of
                        [] \<Rightarrow> Inl (decode_error b i (i + 3) ''unexpected end of data'')
                      | c4 # r4 \<Rightarrow>
                          if \<not> is_continuation c4
                          then Inl (decode_error b i (i + 3) ''invalid continuation byte'')
                          else emit (b * 262144 + c2 * 4096 + c3 * 64 + c4
                                       - (240 * 262144 + 128 * 4096 + 128 * 64 + 128))
                                 (utf8_from (i + 4) r4))))
     else Inl (decode_error b i (i + 1) ''invalid start byte''))"

definition decode :: "pybytes \<Rightarrow> exn + pystr" where
  "decode bs = utf8_from 0 (map unat bs)"

subsection \<open>\<open>str.strip()\<close> and \<open>str.split('\n')\<close>\<close>

text \<open>The code points that \<open>str.isspace\<close> accepts, which \<open>strip\<close> removes at both ends.\<close>

definition is_space :: "nat \<Rightarrow> bool" where
  "is_space c = ((9 \<le> c \<and> c \<le> 13) \<or> (28 \<le> c \<and> c \<le> 32) \<or> c = 0x85 \<or> c = 0xA0
     \<or> c = 0x1680 \<or> (0x2000 \<le> c \<and> c \<le> 0x200A) \<or> c = 0x2028 \<or> c = 0x2029
     \<or> c = 0x202F \<or> c = 0x205F \<or> c = 0x3000)"

definition lstrip :: "pystr \<Rightarrow> pystr" where
  "lstrip s = dropWhile is_space s"

definition rstrip :: "pystr \<Rightarrow> pystr" where
  "rstrip s = rev (dropWhile is_space (rev s))"

definition strip :: "pystr \<Rightarrow> pystr" where
  "strip s = rstrip (lstrip s)"

text \<open>\<open>s.split(sep)\<close> for a separator of one code point: one more piece than separators.\<close>

fun split :: "nat \<Rightarrow> pystr \<Rightarrow> pystr list" where
  "split sep [] = [[]]"
| "split sep (c # cs) =
    (if c = sep then [] # split sep cs
     else (case split sep cs of
         [] \<Rightarrow> [[c]]
       | piece # pieces \<Rightarrow> (c # piece) # pieces))"

section \<open>The operating system as seen by \<open>run_cmd_line\<close>\<close>

text \<open>
  \<open>asyncio.create_subprocess_exec\<close> starts a program without a shell;
  \<open>create_subprocess_shell\<close> would hand a command line to one. Each standard stream is
  given as \<open>None\<close> (the default when the keyword is left out: no redirection is set up
  by the caller), or as one of the constants of \<open>asyncio.subprocess\<close>.
\<close>

datatype redirect = PIPE | DEVNULL | STDOUT

record spawn_request =
  sp_shell :: bool
  sp_argv :: "json list"
  sp_stdin :: "redirect option"
  sp_stdout :: "redirect option"
  sp_stderr :: "redirect option"

text \<open>
  What happens to one request: the launch raises, or the process starts and
  \<open>communicate()\<close> raises, or the process exits and \<open>communicate()\<close> returns the two
  captured streams, \<open>process.returncode\<close> being an \<open>int\<close> or \<open>None\<close>.
\<close>

datatype outcome =
    SpawnRaises exn
  | CommunicateRaises exn
  | Completed "int option" pybytes pybytes

type_synonym os = "spawn_request \<Rightarrow> outcome"

text \<open>
  The effects of the server that the claims speak of: the processes it has asked the
  operating system to start, and the lines it has written with \<open>logger.error\<close>.
\<close>

record world =
  launched :: "spawn_request list"
  error_log :: "pystr list"

definition create_subprocess_exec ::
  "os \<Rightarrow> json list \<Rightarrow> redirect option \<Rightarrow> redirect option \<Rightarrow> redirect option
     \<Rightarrow> world \<Rightarrow> outcome \<times> world" where
  "create_subprocess_exec os program_args stdin stdout stderr w =
     (let req = \<lparr>sp_shell = False, sp_argv = program_args, sp_stdin = stdin,
                 sp_stdout = stdout, sp_stderr = stderr\<rparr>
      in (os req, w\<lparr>launched := launched w @ [req]\<rparr>))"

section \<open>The command runner\<close>

text \<open>The dict that \<open>run_cmd_line\<close> returns, one field for each key.\<close>

record cmd_result =
  out_cmd :: json
  out_args :: json
  out_status_code :: int
  out_stdout :: "pystr list"
  out_stderr :: "pystr list"

text \<open>\<open>cmd_list = [cmd]\<close>, then \<open>if args: cmd_list.append(args)\<close>.\<close>

definition cmd_list :: "json \<Rightarrow> json \<Rightarrow> json list" where
  "cmd_list cmd args = (if truthy args then [cmd] @ [args] else [cmd])"

text \<open>\<open>b.decode().strip().split('\n') if b else []\<close>\<close>

definition split_lines :: "pybytes \<Rightarrow> exn + pystr list" where
  "split_lines b =
     (if b \<noteq> [] then (case decode b of Inl e \<Rightarrow> Inl e | Inr s \<Rightarrow> Inr (split 10 (strip s)))
      else Inr [])"

text \<open>\<open>[line for line in lines if line]\<close>\<close>

definition nonempty_lines :: "pystr list \<Rightarrow> pystr list" where
  "nonempty_lines lines = filter (\<lambda>line. line \<noteq> []) lines"

text \<open>\<open>process.returncode or 0\<close>\<close>

definition returncode_or_0 :: "int option \<Rightarrow> int" where
  "returncode_or_0 rc = (case rc of None \<Rightarrow> 0 | Some n \<Rightarrow> if n \<noteq> 0 then n else 0)"

text \<open>The body of the \<open>try\<close> block, from the outcome of the launch on.\<close>

definition try_body :: "json \<Rightarrow> json \<Rightarrow> outcome \<Rightarrow> exn + cmd_result" where
  "try_body cmd args oc =
     (case oc of
        SpawnRaises e \<Rightarrow> Inl e
      | CommunicateRaises e \<Rightarrow> Inl e
      | Completed returncode stdout_bytes stderr_bytes \<Rightarrow>
          (case split_lines stdout_bytes of
             Inl e \<Rightarrow> Inl e
           | Inr stdout_lines \<Rightarrow>
               (case split_lines stderr_bytes of
                  Inl e \<Rightarrow> Inl e
                | Inr stderr_lines \<Rightarrow>
                    Inr \<lparr>out_cmd = cmd, out_args = args,
                         out_status_code = returncode_or_0 returncode,
                         out_stdout = nonempty_lines stdout_lines,
                         out_stderr = nonempty_lines stderr_lines\<rparr>)))"

text \<open>
  The two \<open>except\<close> clauses, in their order. An exception that is no \<open>Exception\<close>
  leaves \<open>run_cmd_line\<close>.
\<close>

definition run_cmd_line :: "os \<Rightarrow> json \<Rightarrow> json \<Rightarrow> world \<Rightarrow> (exn + cmd_result) \<times> world" where
  "run_cmd_line os cmd args w =
     (let (oc, w') = create_subprocess_exec os (cmd_list cmd args) None (Some PIPE) (Some PIPE) w
      in (case try_body cmd args oc of
            Inr result \<Rightarrow> (Inr result, w')
          | Inl e \<Rightarrow>
              if isinstance_SubprocessError e then
                (Inr \<lparr>out_cmd = cmd, out_args = args, out_status_code = 1,
                      out_stdout = [], out_stderr = [str_exn e]\<rparr>, w')
              else if isinstance_Exception e then
                (Inr \<lparr>out_cmd = cmd, out_args = args, out_status_code = 1,
                      out_stdout = [],
                      out_stderr = [py ''Unexpected error: '' @ str_exn e]\<rparr>, w')
              else (Inl e, w')))"

section \<open>The tool registry and the dispatcher\<close>

record tool =
  tool_name :: pystr
  tool_description :: pystr
  tool_inputSchema :: json

definition list_tools :: "world \<Rightarrow> tool list \<times> world" where
  "list_tools w =
     ([\<lparr>tool_name = py ''run_command'',
        tool_description = py ''Runs a local command on the command line. Can take arguments.'',
        tool_inputSchema = JDict
          [(py ''type'', JStr (py ''object'')),
           (py ''properties'', JDict
              [(py ''cmd'', JDict
                  [(py ''type'', JStr (py ''string'')),
                   (py ''description'', JStr (py ''The command to run.''))]),
               (py ''args'', JDict
                  [(py ''type'', JStr (py ''string'')),
                   (py ''description'', JStr (py ''The arguments to the command''))])]),
           (py ''required'', JList [JStr (py ''cmd'')])]\<rparr>], w)"

record text_content =
  tc_type :: pystr
  tc_text :: pystr

text \<open>
  \<open>json.dumps(output, indent=2)\<close> is a parameter of the dispatcher: no property below
  depends on the text it produces.
\<close>

type_synonym dumps = "cmd_result \<Rightarrow> exn + pystr"

definition call_tool ::
  "dumps \<Rightarrow> os \<Rightarrow> pystr \<Rightarrow> json \<Rightarrow> world \<Rightarrow> (exn + text_content list) \<times> world" where
  "call_tool json_dumps os name arguments w =
     (if name \<noteq> py ''run_command'' then
        (Inl (Exn ValueError (py ''Unknown tool: '' @ name)), w)
      else if \<not> is_dict arguments \<or> \<not> contains_key (py ''cmd'') arguments then
        (Inl (Exn ValueError (py ''Invalid arguments'')), w)
      else
        (case get_key (py ''cmd'') arguments of
           None \<Rightarrow> (Inl (Exn KeyError (py [CHR 0x27] @ py ''cmd'' @ py [CHR 0x27])), w)
         | Some cmd \<Rightarrow>
             (let args = (if contains_key (py ''args'') arguments
                          then (case get_key (py ''args'') arguments of
                                  None \<Rightarrow> JNull | Some a \<Rightarrow> a)
                          else JNull);
                  (r, w') = run_cmd_line os cmd args w;
                  tried = (case r of
                             Inl e \<Rightarrow> Inl e
                           | Inr output \<Rightarrow>
                               (case json_dumps output of
                                  Inl e \<Rightarrow> Inl e
                                | Inr text \<Rightarrow> Inr [\<lparr>tc_type = py ''text'', tc_text = text\<rparr>]))
              in (case tried of
                    Inr content \<Rightarrow> (Inr content, w')
                  | Inl e \<Rightarrow>
                      if isinstance_Exception e then
                        (Inl (Exn RuntimeError (py ''Error: '' @ str_exn e)),
                         w'\<lparr>error_log := error_log w' @ [py ''Error: '' @ str_exn e]\<rparr>)
                      else (Inl e, w')))))"

section \<open>The spec's reading of the output lines, and concrete inputs\<close>

text \<open>
  The specification's wording of the line splitting, to be compared with \<open>split_lines\<close>
  and \<open>nonempty_lines\<close>: decode the stream as text, strip trailing whitespace, split on
  newline boundaries, discard the empty segments.
\<close>

definition spec_split_lines :: "pybytes \<Rightarrow> exn + pystr list" where
  "spec_split_lines b =
     (case decode b of
        Inl e \<Rightarrow> Inl e
      | Inr s \<Rightarrow> Inr (filter (\<lambda>segment. segment \<noteq> []) (split 10 (rstrip s))))"

text \<open>Concrete inputs: ASCII octets, a fresh world, an operating system with one answer.\<close>

definition ascii :: "string \<Rightarrow> pybytes" where
  "ascii s = map of_char s"

definition empty_world :: world where
  "empty_world = \<lparr>launched = [], error_log = []\<rparr>"

definition os_always :: "outcome \<Rightarrow> os" where
  "os_always oc req = oc"

section \<open>Basic facts about the runner\<close>

lemma launch_outcome:
  "fst (create_subprocess_exec os argv si so se w) =
     os \<lparr>sp_shell = False, sp_argv = argv, sp_stdin = si, sp_stdout = so, sp_stderr = se\<rparr>"
  by (simp add: create_subprocess_exec_def Let_def)

lemma launch_world:
  "snd (create_subprocess_exec os argv si so se w) =
     w\<lparr>launched := launched w @
        [\<lparr>sp_shell = False, sp_argv = argv, sp_stdin = si, sp_stdout = so, sp_stderr = se\<rparr>]\<rparr>"
  by (simp add: create_subprocess_exec_def Let_def)

lemma run_cmd_line_result:
  "fst (run_cmd_line os cmd args w) =
     (case try_body cmd args
             (fst (create_subprocess_exec os (cmd_list cmd args) None (Some PIPE) (Some PIPE) w)) of
        Inr result \<Rightarrow> Inr result
      | Inl e \<Rightarrow>
          if isinstance_SubprocessError e then
            Inr \<lparr>out_cmd = cmd, out_args = args, out_status_code = 1,
                 out_stdout = [], out_stderr = [str_exn e]\<rparr>
          else if isinstance_Exception e then
            Inr \<lparr>out_cmd = cmd, out_args = args, out_status_code = 1,
                 out_stdout = [], out_stderr = [py ''Unexpected error: '' @ str_exn e]\<rparr>
          else Inl e)"
  by (simp add: run_cmd_line_def split: prod.splits sum.splits)

lemma run_cmd_line_world:
  "snd (run_cmd_line os cmd args w) =
     snd (create_subprocess_exec os (cmd_list cmd args) None (Some PIPE) (Some PIPE) w)"
  by (simp add: run_cmd_line_def split: prod.splits sum.splits)

section \<open>Launch failures\<close>

text \<open>
  Claim C1. When the launch of the process raises an exception that derives from
  \<open>Exception\<close> (an \<open>OSError\<close> such as executable not found or permission denied),
  \<open>run_cmd_line\<close> raises nothing: it returns a result with status code 1, no stdout
  lines, and exactly one stderr line, which is \<open>str(e)\<close> for a \<open>SubprocessError\<close> and
  \<open>str(e)\<close> after the prefix \<open>Unexpected error: \<close> for every other class.
\<close>

theorem spawn_failure_envelope:
  assumes "fst (create_subprocess_exec os (cmd_list cmd args) None (Some PIPE) (Some PIPE) w)
             = SpawnRaises e"
      and "isinstance_Exception e"
  shows "fst (run_cmd_line os cmd args w) =
           Inr \<lparr>out_cmd = cmd, out_args = args, out_status_code = 1, out_stdout = [],
                out_stderr = [if isinstance_SubprocessError e then str_exn e
                              else py ''Unexpected error: '' @ str_exn e]\<rparr>"
  using assms by (simp add: run_cmd_line_result try_body_def)

theorem spawn_failure_envelope_witness:
  "fst (run_cmd_line
          (os_always (SpawnRaises (Exn OSError (py ''[Errno 2] No such file or directory''))))
          (JStr (py ''nonexistent_binary_xyz'')) JNull empty_world) =
     Inr \<lparr>out_cmd = JStr (py ''nonexistent_binary_xyz''), out_args = JNull, out_status_code = 1,
          out_stdout = [],
          out_stderr = [py ''Unexpected error: [Errno 2] No such file or directory'']\<rparr>"
  using spawn_failure_envelope
    [of "os_always (SpawnRaises (Exn OSError (py ''[Errno 2] No such file or directory'')))"
        "JStr (py ''nonexistent_binary_xyz'')" JNull empty_world
        "Exn OSError (py ''[Errno 2] No such file or directory'')"]
  by (simp add: launch_outcome os_always_def isinstance_Exception_def
      isinstance_SubprocessError_def py_def)

section \<open>Decoding and line splitting\<close>

lemma utf8_from_class:
  "utf8_from i bs = Inl e \<Longrightarrow> class_of e = UnicodeDecodeError"
proof -
  define P where "P = (\<lambda>r :: exn + pystr. \<forall>e. r = Inl e \<longrightarrow> class_of e = UnicodeDecodeError)"
  have p_if: "P (if c then x else y)" if "c \<Longrightarrow> P x" "\<not> c \<Longrightarrow> P y" for c x y
    using that by simp
  have p_list: "P (case xs of [] \<Rightarrow> a | y # ys \<Rightarrow> f y ys)"
    if "xs = [] \<Longrightarrow> P a" "\<And>y ys. xs = y # ys \<Longrightarrow> P (f y ys)" for xs :: "nat list" and a f
    using that by (cases xs) simp_all
  have p_err: "P (Inl (decode_error b k j reason))" for b k j reason
    by (simp add: P_def decode_error_def)
  have p_emit: "P (emit cp r)" if "P r" for cp r
    using that by (cases r) (simp_all add: P_def emit_def)
  have "P (utf8_from i bs)" for i bs
  proof (induction i bs rule: utf8_from.induct)
    case (1 i)
    show ?case by (simp add: P_def)
  next
    case (2 i b bs)
    show ?case
      apply (subst utf8_from.simps)
      apply (intro p_if p_list p_err p_emit)
      apply (rule 2, assumption+)+
      done
  qed
  then show "utf8_from i bs = Inl e \<Longrightarrow> class_of e = UnicodeDecodeError"
    by (simp add: P_def)
qed

lemma decode_error_class: "decode b = Inl e \<Longrightarrow> class_of e = UnicodeDecodeError"
  unfolding decode_def by (rule utf8_from_class)


lemma decode_empty: "decode [] = Inr []"
  by (simp add: decode_def)

lemma split_lines_text:
  assumes "decode b = Inr t"
  shows "\<exists>ls. split_lines b = Inr ls \<and> nonempty_lines ls = nonempty_lines (split 10 (strip t))"
proof (cases "b = []")
  case True
  with assms have "t = []" by (simp add: decode_def)
  with True show ?thesis
    by (simp add: split_lines_def nonempty_lines_def strip_def lstrip_def rstrip_def)
next
  case False
  with assms show ?thesis by (simp add: split_lines_def)
qed

lemma split_lines_failure:
  "decode b = Inl e \<Longrightarrow> split_lines b = Inl e"
  by (cases "b = []") (simp_all add: split_lines_def decode_def)

lemma try_body_completed:
  assumes "decode out = Inr t_out" and "decode err = Inr t_err"
  shows "try_body cmd args (Completed rc out err) =
           Inr \<lparr>out_cmd = cmd, out_args = args, out_status_code = returncode_or_0 rc,
                out_stdout = nonempty_lines (split 10 (strip t_out)),
                out_stderr = nonempty_lines (split 10 (strip t_err))\<rparr>"
proof -
  from split_lines_text [OF assms(1)] obtain l1 where
    l1: "split_lines out = Inr l1" "nonempty_lines l1 = nonempty_lines (split 10 (strip t_out))"
    by blast
  from split_lines_text [OF assms(2)] obtain l2 where
    l2: "split_lines err = Inr l2" "nonempty_lines l2 = nonempty_lines (split 10 (strip t_err))"
    by blast
  from l1 l2 show ?thesis by (simp add: try_body_def)
qed

lemma try_body_decode_failure:
  assumes "decode out = Inl e \<or> (decode out = Inr t \<and> decode err = Inl e)"
  shows "try_body cmd args (Completed rc out err) = Inl e"
proof -
  from assms consider "decode out = Inl e" | "decode out = Inr t" "decode err = Inl e" by blast
  then show ?thesis
  proof cases
    case 1
    then show ?thesis by (simp add: try_body_def split_lines_failure)
  next
    case 2
    from split_lines_text [OF 2(1)] obtain ls where "split_lines out = Inr ls" by blast
    with 2 show ?thesis by (simp add: try_body_def split_lines_failure)
  qed
qed

lemma nonempty_lines_no_empty: "[] \<notin> set (nonempty_lines ls)"
  by (simp add: nonempty_lines_def)

lemmas run_eval =
  run_cmd_line_result launch_outcome os_always_def cmd_list_def try_body_def split_lines_def
  nonempty_lines_def returncode_or_0_def decode_def emit_def is_continuation_def
  strip_def lstrip_def rstrip_def is_space_def ascii_def py_def empty_world_def
  isinstance_Exception_def isinstance_SubprocessError_def decode_error_def hex2_def
  digit_char_def decimal.simps spec_split_lines_def

section \<open>The argument vector\<close>

text \<open>
  Claim C2, as stated: whenever the arguments are present and not null, the argument
  vector is the command followed by the arguments. The empty string is present and not
  null, yet \<open>if args:\<close> leaves it out: the process is started with the command alone.
\<close>

theorem empty_arguments_counterexample:
  "map sp_argv (launched (snd (run_cmd_line (os_always (Completed (Some 0) [] []))
       (JStr (py ''echo'')) (JStr []) empty_world))) \<noteq> [[JStr (py ''echo''), JStr []]]"
  by (simp add: run_cmd_line_world launch_world cmd_list_def empty_world_def)

text \<open>
  Claim C2, amended. Every call of \<open>run_cmd_line\<close> starts one process, whose argument
  vector is the command followed by the arguments as one token, never split, when the
  arguments are truthy (present, not null, and not the empty string), and the command alone
  otherwise. The vector has at most two tokens.
\<close>

theorem argument_vector:
  "map sp_argv (launched (snd (run_cmd_line os cmd args w))) =
     map sp_argv (launched w) @ [if truthy args then [cmd, args] else [cmd]]
   \<and> truthy (JStr (c # s)) \<and> \<not> truthy (JStr []) \<and> \<not> truthy JNull
   \<and> length (cmd_list cmd args) \<le> 2"
  by (simp add: run_cmd_line_world launch_world cmd_list_def)

theorem argument_vector_witness:
  "map sp_argv (launched (snd (run_cmd_line (os_always (Completed (Some 0) [] []))
       (JStr (py ''echo'')) (JStr (py ''hello world'')) empty_world))) =
     [[JStr (py ''echo''), JStr (py ''hello world'')]]"
  using argument_vector [of "os_always (Completed (Some 0) [] [])" "JStr (py ''echo'')"
      "JStr (py ''hello world'')" empty_world]
  by (simp add: empty_world_def py_def)

section \<open>Output lines\<close>

text \<open>
  Claim C3, as stated: the lines are the segments of the decoded text after stripping
  trailing whitespace. \<open>strip()\<close> removes leading whitespace too, so for the output
  \<open>"  a"\<close> the runner gives the line \<open>"a"\<close>, where the stated procedure
  (\<open>spec_split_lines\<close>) gives \<open>"  a"\<close>.
\<close>

theorem leading_whitespace_counterexample:
  "map_sum id out_stdout
     (fst (run_cmd_line (os_always (Completed (Some 0) (ascii ''  a'') []))
        (JStr (py ''printf'')) (JStr (py ''  a'')) empty_world))
   \<noteq> spec_split_lines (ascii ''  a'')"
  by (simp add: run_eval)

text \<open>
  Claim C3, amended. When the process completes and both captured streams decode as
  UTF-8, the stdout and stderr lines are the text with its leading and trailing
  whitespace stripped, split at newlines, without the empty segments; neither list
  contains an empty string.
\<close>

theorem output_lines:
  assumes "fst (create_subprocess_exec os (cmd_list cmd args) None (Some PIPE) (Some PIPE) w)
             = Completed rc out err"
      and "decode out = Inr t_out" and "decode err = Inr t_err"
  shows "\<exists>r. fst (run_cmd_line os cmd args w) = Inr r
           \<and> out_stdout r = filter (\<lambda>line. line \<noteq> []) (split 10 (strip t_out))
           \<and> out_stderr r = filter (\<lambda>line. line \<noteq> []) (split 10 (strip t_err))
           \<and> [] \<notin> set (out_stdout r) \<and> [] \<notin> set (out_stderr r)"
  using assms(1) try_body_completed [OF assms(2,3), of cmd args rc]
  by (simp add: run_cmd_line_result nonempty_lines_def)

theorem output_lines_witness:
  "\<exists>r. fst (run_cmd_line
             (os_always (Completed (Some 0) (ascii ''  a\<newline>\<newline> b \<newline>'') (ascii ''w\<newline>'')))
             (JStr (py ''printf'')) JNull empty_world) = Inr r
      \<and> out_stdout r = [py ''a'', py '' b''] \<and> out_stderr r = [py ''w'']
      \<and> [] \<notin> set (out_stdout r) \<and> [] \<notin> set (out_stderr r)"
  using output_lines
    [of "os_always (Completed (Some 0) (ascii ''  a\<newline>\<newline> b \<newline>'') (ascii ''w\<newline>''))"
        "JStr (py ''printf'')" JNull empty_world "Some 0"
        "ascii ''  a\<newline>\<newline> b \<newline>''" "ascii ''w\<newline>''"
        "py ''  a\<newline>\<newline> b \<newline>''" "py ''w\<newline>''"]
  by (simp add: launch_outcome os_always_def decode_def emit_def ascii_def py_def
      strip_def lstrip_def rstrip_def is_space_def)

section \<open>The dispatcher's checks\<close>

text \<open>
  Claim C4. A call whose tool name is not \<open>run_command\<close> fails with the
  \<open>ValueError\<close> \<open>Unknown tool: <name>\<close>; a call to \<open>run_command\<close> whose payload is not
  a dict with the key \<open>cmd\<close> fails with the \<open>ValueError\<close> \<open>Invalid arguments\<close>. The name
  is checked first. In both cases the world is unchanged (no process is launched, nothing is
  logged) and the result does not depend on the operating system: the command runner is
  not invoked.
\<close>

theorem dispatcher_rejects:
  "(name \<noteq> py ''run_command'' \<longrightarrow>
      call_tool json_dumps os name arguments w =
        (Inl (Exn ValueError (py ''Unknown tool: '' @ name)), w))
   \<and> (name = py ''run_command'' \<and> (\<not> is_dict arguments \<or> \<not> contains_key (py ''cmd'') arguments) \<longrightarrow>
      call_tool json_dumps os name arguments w =
        (Inl (Exn ValueError (py ''Invalid arguments'')), w))"
  by (simp add: call_tool_def)

theorem dispatcher_rejects_witness:
  "call_tool (\<lambda>output. Inr []) (os_always (Completed (Some 0) [] []))
       (py ''delete_everything'') (JDict [(py ''cmd'', JStr (py ''ls''))]) empty_world =
     (Inl (Exn ValueError (py ''Unknown tool: delete_everything'')), empty_world)
   \<and> call_tool (\<lambda>output. Inr []) (os_always (Completed (Some 0) [] []))
       (py ''run_command'') (JDict []) empty_world =
     (Inl (Exn ValueError (py ''Invalid arguments'')), empty_world)
   \<and> call_tool (\<lambda>output. Inr []) (os_always (Completed (Some 0) [] []))
       (py ''run_command'') (JStr (py ''cmd'')) empty_world =
     (Inl (Exn ValueError (py ''Invalid arguments'')), empty_world)"
  using
    dispatcher_rejects [of "py ''delete_everything''" "\<lambda>output. Inr []"
      "os_always (Completed (Some 0) [] [])" "JDict [(py ''cmd'', JStr (py ''ls''))]" empty_world]
    dispatcher_rejects [of "py ''run_command''" "\<lambda>output. Inr []"
      "os_always (Completed (Some 0) [] [])" "JDict []" empty_world]
    dispatcher_rejects [of "py ''run_command''" "\<lambda>output. Inr []"
      "os_always (Completed (Some 0) [] [])" "JStr (py ''cmd'')" empty_world]
  by (simp add: py_def)

section \<open>The exit status\<close>

text \<open>
  Claim C5, as stated: every process that is started and runs to completion has its real
  exit status reported. A process that exits with status 0 after writing an octet that is
  not UTF-8 is reported with status code 1.
\<close>

theorem exit_status_discarded_counterexample:
  "map_sum id out_status_code
     (fst (run_cmd_line (os_always (Completed (Some 0) [0xFF] []))
        (JStr (py ''cat'')) (JStr (py ''blob'')) empty_world))
   \<noteq> Inr 0"
  by (simp add: run_eval)

text \<open>
  Claim C5, amended. When the process completes and both captured streams decode as
  UTF-8, the status code of the result is the return code of the process, and 0 when the
  return code is \<open>None\<close>.
\<close>

theorem exit_status:
  assumes "fst (create_subprocess_exec os (cmd_list cmd args) None (Some PIPE) (Some PIPE) w)
             = Completed rc out err"
      and "decode out = Inr t_out" and "decode err = Inr t_err"
  shows "\<exists>r. fst (run_cmd_line os cmd args w) = Inr r
           \<and> out_status_code r = (case rc of None \<Rightarrow> 0 | Some n \<Rightarrow> n)"
  using assms(1) try_body_completed [OF assms(2,3), of cmd args rc]
  by (simp add: run_cmd_line_result returncode_or_0_def split: option.splits)

theorem exit_status_witness:
  "(\<exists>r. fst (run_cmd_line (os_always (Completed (Some 2) [] (ascii ''ls: no such file\<newline>'')))
             (JStr (py ''ls'')) (JStr (py ''/nowhere'')) empty_world) = Inr r
       \<and> out_status_code r = 2)
   \<and> (\<exists>r. fst (run_cmd_line (os_always (Completed None [] []))
             (JStr (py ''true'')) JNull empty_world) = Inr r
       \<and> out_status_code r = 0)"
  using exit_status
    [of "os_always (Completed (Some 2) [] (ascii ''ls: no such file\<newline>''))"
        "JStr (py ''ls'')" "JStr (py ''/nowhere'')" empty_world "Some 2" "[]"
        "ascii ''ls: no such file\<newline>''" "[]" "py ''ls: no such file\<newline>''"]
    exit_status
    [of "os_always (Completed None [] [])" "JStr (py ''true'')" JNull empty_world None
        "[]" "[]" "[]" "[]"]
  by (simp add: launch_outcome os_always_def decode_def emit_def ascii_def py_def)

section \<open>How the process is launched\<close>



section \<open>The tool catalog\<close>

text \<open>
  Claim C7. In every world \<open>list_tools\<close> returns exactly one descriptor and leaves the
  world as it is. The descriptor is named \<open>run_command\<close>; its input schema has type
  \<open>object\<close>, the properties \<open>cmd\<close> and \<open>args\<close>, both of type \<open>string\<close>, and requires
  \<open>cmd\<close> only.
\<close>

theorem list_tools_catalog:
  "\<exists>t. list_tools w = ([t], w)
     \<and> tool_name t = py ''run_command''
     \<and> get_key (py ''type'') (tool_inputSchema t) = Some (JStr (py ''object''))
     \<and> get_key (py ''required'') (tool_inputSchema t) = Some (JList [JStr (py ''cmd'')])
     \<and> (\<exists>props. get_key (py ''properties'') (tool_inputSchema t) = Some (JDict props)
          \<and> map fst props = [py ''cmd'', py ''args'']
          \<and> (\<exists>c. get_key (py ''cmd'') (JDict props) = Some c
                \<and> get_key (py ''type'') c = Some (JStr (py ''string'')))
          \<and> (\<exists>a. get_key (py ''args'') (JDict props) = Some a
                \<and> get_key (py ''type'') a = Some (JStr (py ''string''))))"
  by (simp add: list_tools_def py_def)

section \<open>Determinism and the echoed inputs\<close>

text \<open>
  Claim C8. Two calls of \<open>run_cmd_line\<close> with the same command and arguments, to which
  the operating system answers with the same outcome (the same exception, or the same
  return code and captured octets), return the same result, whatever else differs between
  the two operating systems and the two worlds.
\<close>

theorem run_deterministic:
  assumes "fst (create_subprocess_exec os (cmd_list cmd args) None (Some PIPE) (Some PIPE) w) =
           fst (create_subprocess_exec os' (cmd_list cmd args) None (Some PIPE) (Some PIPE) w')"
  shows "fst (run_cmd_line os cmd args w) = fst (run_cmd_line os' cmd args w')"
  using assms by (simp add: run_cmd_line_result)

theorem run_deterministic_witness:
  "fst (run_cmd_line (os_always (Completed (Some 0) (ascii ''hello\<newline>'') []))
          (JStr (py ''echo'')) (JStr (py ''hello'')) empty_world) =
   fst (run_cmd_line
          (\<lambda>req. if sp_argv req = [JStr (py ''echo''), JStr (py ''hello'')]
                 then Completed (Some 0) (ascii ''hello\<newline>'') []
                 else SpawnRaises (Exn OSError (py ''[Errno 13] Permission denied'')))
          (JStr (py ''echo'')) (JStr (py ''hello''))
          \<lparr>launched = [], error_log = [py ''Error: earlier'']\<rparr>)"
  using run_deterministic
    [of "os_always (Completed (Some 0) (ascii ''hello\<newline>'') [])"
        "JStr (py ''echo'')" "JStr (py ''hello'')" empty_world
        "\<lambda>req. if sp_argv req = [JStr (py ''echo''), JStr (py ''hello'')]
               then Completed (Some 0) (ascii ''hello\<newline>'') []
               else SpawnRaises (Exn OSError (py ''[Errno 13] Permission denied''))"
        "\<lparr>launched = [], error_log = [py ''Error: earlier'']\<rparr>"]
  by (simp add: launch_outcome os_always_def cmd_list_def py_def)

text \<open>
  Claim C9. Whenever \<open>run_cmd_line\<close> returns a result (after a completed process, a
  launch failure, or any other exception that one of its \<open>except\<close> clauses catches), the
  \<open>cmd\<close> and \<open>args\<close> fields of the result are the inputs, unchanged (\<open>args\<close> is null
  when no arguments were given). It returns no result only when an exception that is not an
  \<open>Exception\<close> passes through.
\<close>

theorem result_echoes_inputs:
  "case fst (run_cmd_line os cmd args w) of
     Inr r \<Rightarrow> out_cmd r = cmd \<and> out_args r = args
   | Inl e \<Rightarrow> \<not> isinstance_Exception e"
  by (auto simp: run_cmd_line_result try_body_def isinstance_Exception_def
      isinstance_SubprocessError_def split: sum.splits outcome.splits)

theorem result_echoes_inputs_witness:
  "\<exists>r. fst (run_cmd_line (os_always (Completed (Some 0) (ascii ''hello\<newline>'') []))
            (JStr (py ''echo'')) JNull empty_world) = Inr r
      \<and> out_cmd r = JStr (py ''echo'') \<and> out_args r = JNull"
  using result_echoes_inputs
    [where os = "os_always (Completed (Some 0) (ascii ''hello\<newline>'') [])"
       and cmd = "JStr (py ''echo'')" and args = JNull and w = empty_world]
  by (simp add: run_eval)

section \<open>Failures after the launch\<close>

text \<open>
  Claim C10. When the process was started and a failure follows (the captured stdout or
  stderr is not UTF-8, or \<open>communicate()\<close> raises an \<open>Exception\<close> other than a
  \<open>SubprocessError\<close>), \<open>run_cmd_line\<close> returns the same envelope as for a launch
  failure: status code 1, no stdout lines, and one stderr line, \<open>str(e)\<close> after the prefix
  \<open>Unexpected error: \<close>. The return code and the captured output are dropped.
\<close>

theorem late_failure_envelope:
  assumes "fst (create_subprocess_exec os (cmd_list cmd args) None (Some PIPE) (Some PIPE) w) = oc"
      and "(\<exists>rc out err t. oc = Completed rc out err
              \<and> (decode out = Inl e \<or> (decode out = Inr t \<and> decode err = Inl e)))
           \<or> (oc = CommunicateRaises e \<and> isinstance_Exception e
                \<and> \<not> isinstance_SubprocessError e)"
  shows "fst (run_cmd_line os cmd args w) =
           Inr \<lparr>out_cmd = cmd, out_args = args, out_status_code = 1, out_stdout = [],
                out_stderr = [py ''Unexpected error: '' @ str_exn e]\<rparr>"
proof -
  from assms(2) consider
      (decoding) rc out err t where "oc = Completed rc out err"
        "decode out = Inl e \<or> (decode out = Inr t \<and> decode err = Inl e)"
    | (communicating) "oc = CommunicateRaises e" "isinstance_Exception e"
        "\<not> isinstance_SubprocessError e"
    by blast
  then show ?thesis
  proof cases
    case decoding
    from decoding(2) have "class_of e = UnicodeDecodeError"
      by (auto dest: decode_error_class)
    moreover have "try_body cmd args oc = Inl e"
      unfolding decoding(1) by (rule try_body_decode_failure [OF decoding(2)])
    ultimately show ?thesis
      using assms(1)
      by (simp add: run_cmd_line_result isinstance_SubprocessError_def isinstance_Exception_def)
  next
    case communicating
    then show ?thesis
      using assms(1) by (simp add: run_cmd_line_result try_body_def)
  qed
qed

theorem late_failure_envelope_witness:
  "fst (run_cmd_line (os_always (Completed (Some 0) (ascii ''ok\<newline>'') [0xFF]))
          (JStr (py ''cat'')) (JStr (py ''blob'')) empty_world) =
     Inr \<lparr>out_cmd = JStr (py ''cat''), out_args = JStr (py ''blob''), out_status_code = 1,
          out_stdout = [],
          out_stderr = [py ''Unexpected error: '' @ py [CHR 0x27] @ py ''utf-8'' @ py [CHR 0x27]
            @ py '' codec can'' @ py [CHR 0x27]
            @ py ''t decode byte 0xff in position 0: invalid start byte'']\<rparr>"
  using late_failure_envelope
    [of "os_always (Completed (Some 0) (ascii ''ok\<newline>'') [0xFF])"
        "JStr (py ''cat'')" "JStr (py ''blob'')" empty_world
        "Completed (Some 0) (ascii ''ok\<newline>'') [0xFF]"
        "decode_error 255 0 1 ''invalid start byte''"]
  by (simp add: launch_outcome os_always_def decode_def emit_def ascii_def py_def
      decode_error_def hex2_def digit_char_def decimal.simps)

end
